theory Spec2Isabelle
  imports Main
begin

section \<open>The storage miner of neurons/miner.py\<close>

text \<open>
  The miner keeps one SQLite table per validator (the remote peer), serves the two
  requests \<open>retrieve\<close> and \<open>store\<close> against these tables, and runs a control loop that
  recomputes the allocations every \<open>steps_per_reallocate\<close> steps. The embedding follows
  the nested functions of \<open>main\<close> one by one. What Python keeps in closure variables,
  in the thread-local object and in the database files is one record, passed through
  every function and returned updated.
\<close>

subsection \<open>Exceptions\<close>

text \<open>
  The exceptions that the model raises itself are \<open>KeyError\<close> (a dictionary lookup),
  \<open>OperationalError\<close>, \<open>ProgrammingError\<close>, \<open>OverflowError\<close> and \<open>UnicodeEncodeError\<close>
  (sqlite3: a file that cannot be opened or a missing table, a closed connection, a
  parameter that cannot be bound) and \<open>ZeroDivisionError\<close> (the modulus of the loop).
  The others stand for
  what the library calls of a tick may raise. \<open>is_Exception e\<close> is Python's
  \<open>isinstance(e, Exception)\<close>: \<open>KeyboardInterrupt\<close>, \<open>SystemExit\<close> and
  \<open>GeneratorExit\<close> derive from \<open>BaseException\<close> only.
\<close>

datatype exn =
    KeyError string
  | OperationalError string
  | ProgrammingError string
  | OverflowError string
  | UnicodeEncodeError string
  | ZeroDivisionError
  | OtherException string
  | KeyboardInterrupt
  | SystemExit
  | GeneratorExit

fun is_Exception :: "exn \<Rightarrow> bool" where
  "is_Exception KeyboardInterrupt = False"
| "is_Exception SystemExit = False"
| "is_Exception GeneratorExit = False"
| "is_Exception _ = True"

fun is_KeyboardInterrupt :: "exn \<Rightarrow> bool" where
  "is_KeyboardInterrupt KeyboardInterrupt = True"
| "is_KeyboardInterrupt _ = False"

subsection \<open>Dictionaries and attribute tables\<close>

text \<open>
  A Python dictionary is an association list in insertion order: assigning to a key that
  is present replaces its value in place, a new key goes to the end.
\<close>

fun dict_set :: "'a \<Rightarrow> 'b \<Rightarrow> ('a \<times> 'b) list \<Rightarrow> ('a \<times> 'b) list" where
  "dict_set k v [] = [(k, v)]"
| "dict_set k v (p # d) = (if fst p = k then (k, v) # d else p # dict_set k v d)"

definition dict_values :: "('a \<times> 'b) list \<Rightarrow> 'b list" where
  "dict_values d = map snd d"

text \<open>An allocation, as far as the miner reads it: \<open>a["validator"]\<close> and \<open>a["path"]\<close>.\<close>

record alloc =
  validator :: string
  path :: string

text \<open>The comprehension \<open>{a["validator"]: a for a in allocate.allocate(...)}\<close>.\<close>

definition dict_comp :: "alloc list \<Rightarrow> (string \<times> alloc) list" where
  "dict_comp as = fold (\<lambda>a d. dict_set (validator a) a d) as []"

subsection \<open>SQLite: connections, tables, the two statements\<close>

text \<open>
  A connection is the file it was opened on and whether it has been closed. A database
  file is a map from table names to tables; a table is its list of rows \<open>(id, data)\<close>,
  where \<open>data = None\<close> is SQL NULL. A path on which no file exists yet holds no table,
  which is also what \<open>sqlite3.connect\<close> makes of it. Beyond what is written out below
  SQLite is taken to work: no statement raises for a full disk or for a lock held by
  another process.
\<close>

record conn =
  conn_path :: string
  closed :: bool

type_synonym ('k, 'v) table = "('k \<times> 'v option) list"
type_synonym ('k, 'v) files = "string \<Rightarrow> string \<rightharpoonup> ('k, 'v) table"

text \<open>
  The key of a request is a Python integer and its data a Python string or \<open>None\<close>; a
  string is the list of its code points. Binding a parameter raises \<open>OverflowError\<close> for
  an integer outside 64 bits and \<open>UnicodeEncodeError\<close> for a string with a surrogate,
  which has no UTF-8 encoding.
\<close>

type_synonym pystr = "nat list"

definition encodable :: "pystr \<Rightarrow> bool" where
  "encodable s = list_all (\<lambda>c. c < 55296 \<or> 57343 < c) s"

definition bind_key :: "int \<Rightarrow> exn option" where
  "bind_key k =
     (if - (2 ^ 63) \<le> k \<and> k < 2 ^ 63 then None
      else Some (OverflowError ''Python int too large to convert to SQLite INTEGER''))"

definition bind_data :: "pystr option \<Rightarrow> exn option" where
  "bind_data v =
     (case v of
        None \<Rightarrow> None
      | Some s \<Rightarrow> if encodable s then None
                  else Some (UnicodeEncodeError ''surrogates not allowed''))"

text \<open>\<open>db.cursor()\<close> raises on a closed connection.\<close>

definition cursor :: "conn \<Rightarrow> exn + conn" where
  "cursor db = (if closed db then Inl (ProgrammingError ''Cannot operate on a closed database.'')
                else Inr db)"

text \<open>
  The name \<open>DB{wallet.hotkey.ss58_address}{synapse.dendrite.hotkey}\<close>. SQLite compares
  names of tables without regard to the case of the letters A to Z: a file is keyed by
  the names in lower case, and a statement looks its table up under \<open>fold_name\<close>.
  The text that the handlers put into their statements is a name only if it is
  \<open>plain\<close>, made of letters, digits and underscores, as it is for ss58 addresses; what
  SQLite's parser makes of any other text is not modelled, and the properties of tables
  below are stated for plain names.
\<close>

definition table_name :: "string \<Rightarrow> string \<Rightarrow> string" where
  "table_name w h = ''DB'' @ w @ h"

definition lower :: "char \<Rightarrow> char" where
  "lower c =
     (case map_of (zip ''ABCDEFGHIJKLMNOPQRSTUVWXYZ'' ''abcdefghijklmnopqrstuvwxyz'') c of
        Some d \<Rightarrow> d
      | None \<Rightarrow> c)"

definition fold_name :: "string \<Rightarrow> string" where
  "fold_name s = map lower s"

definition plain :: "string \<Rightarrow> bool" where
  "plain s =
     list_all (\<lambda>c. c \<in> set ''ABCDEFGHIJKLMNOPQRSTUVWXYZabcdefghijklmnopqrstuvwxyz0123456789_'') s"

text \<open>\<open>SELECT data FROM t WHERE id=?\<close>: one tuple \<open>(data,)\<close> for each matching row.\<close>

definition select_data :: "('k, 'v) table \<Rightarrow> 'k \<Rightarrow> 'v option list list" where
  "select_data rows k = map (\<lambda>r. [snd r]) (filter (\<lambda>r. fst r = k) rows)"

definition fetchone :: "'a list \<Rightarrow> 'a option" where
  "fetchone rs = (case rs of [] \<Rightarrow> None | r # _ \<Rightarrow> Some r)"

text \<open>\<open>UPDATE t SET data = ? WHERE id = ?\<close>: every matching row gets the new data.\<close>

definition update_data :: "('k, 'v) table \<Rightarrow> 'v option \<Rightarrow> 'k \<Rightarrow> ('k, 'v) table" where
  "update_data rows v k = map (\<lambda>r. if fst r = k then (fst r, v) else r) rows"

text \<open>
  \<open>cursor.execute(query, (key,))\<close> followed by \<open>cursor.fetchone()\<close>, and
  \<open>cursor.execute(update_request, (data, key))\<close> followed by \<open>db.commit()\<close>. The statement
  is compiled first, which raises \<open>OperationalError\<close> for a table that the file does not
  have; then its parameters are bound in their order, which raises as \<open>bind_data\<close> and
  \<open>bind_key\<close> say; then it runs.
\<close>

definition execute_select ::
  "conn \<Rightarrow> string \<Rightarrow> int \<Rightarrow> (int, 'v) files \<Rightarrow> exn + 'v option list option" where
  "execute_select cur tn k fs =
     (case fs (conn_path cur) (fold_name tn) of
        None \<Rightarrow> Inl (OperationalError (''no such table: '' @ tn))
      | Some rows \<Rightarrow>
          (case bind_key k of
             Some e \<Rightarrow> Inl e
           | None \<Rightarrow> Inr (fetchone (select_data rows k))))"

definition execute_update ::
  "conn \<Rightarrow> string \<Rightarrow> pystr option \<Rightarrow> int \<Rightarrow> (int, pystr) files \<Rightarrow> exn + (int, pystr) files" where
  "execute_update cur tn v k fs =
     (case fs (conn_path cur) (fold_name tn) of
        None \<Rightarrow> Inl (OperationalError (''no such table: '' @ tn))
      | Some rows \<Rightarrow>
          (case bind_data v of
             Some e \<Rightarrow> Inl e
           | None \<Rightarrow>
               (case bind_key k of
                  Some e \<Rightarrow> Inl e
                | None \<Rightarrow>
                    Inr (fs(conn_path cur :=
                              (fs (conn_path cur))(fold_name tn \<mapsto> update_data rows v k))))))"

subsection \<open>Requests, log lines and the state of the process\<close>

text \<open>A request carries \<open>synapse.key\<close>, \<open>synapse.data\<close> and \<open>synapse.dendrite.hotkey\<close>.\<close>

record ('k, 'v) synapse =
  key :: 'k
  data :: "'v option"
  dendrite_hotkey :: string

text \<open>
  One constructor for each call of \<open>bt.logging\<close> in the handlers, in the loop and
  around the first allocation.
\<close>

datatype ('k, 'v) event =
    Info_GotRetrieve 'k string
  | Info_Connecting string
  | Success_Found 'k
  | Error_NotFound 'k
  | Info_GotStore 'k string
  | Info_StoreData "'v option" 'k
  | Error_Updating exn
  | Success_Stored 'k
  | Info_Closed string
  | Info_Creating nat
  | Info_Telemetry int
  | Info_Reallocating nat
  | Success_Killed
  | Error_Traceback exn


text \<open>
  \<open>allocations\<close> is the closure variable shared by the loop and the handlers,
  \<open>local_storage\<close> the \<open>threading.local()\<close> object: one attribute table for each thread.
  \<open>can_connect\<close> says of a path whether \<open>sqlite3.connect\<close> can open it (its directory
  exists and may be written). \<open>generate_calls\<close> records the arguments
  \<open>(allocations, restart)\<close> of every call of \<open>allocate.generate\<close>.
\<close>

record ('k, 'v) world =
  allocations :: "(string \<times> alloc) list"
  local_storage :: "nat \<Rightarrow> (string \<times> conn) list"
  can_connect :: "string \<Rightarrow> bool"
  disk :: "('k, 'v) files"
  logs :: "('k, 'v) event list"
  generate_calls :: "(alloc list \<times> bool) list"
  step :: int
  axon_serving :: bool

definition bt_log :: "('k, 'v) event \<Rightarrow> ('k, 'v) world \<Rightarrow> ('k, 'v) world" where
  "bt_log e st = st\<lparr>logs := logs st @ [e]\<rparr>"

subsection \<open>The connection of a thread\<close>

definition attr_name :: "alloc \<Rightarrow> string" where
  "attr_name a = ''connection_'' @ validator a"

text \<open>
  \<open>get_db_connection\<close>, called in thread \<open>t\<close>: without the attribute, connect and set
  it; return the attribute. When \<open>sqlite3.connect\<close> raises, nothing is set.
\<close>

definition get_db_connection ::
  "alloc \<Rightarrow> nat \<Rightarrow> ('k, 'v) world \<Rightarrow> (exn + conn) \<times> ('k, 'v) world" where
  "get_db_connection a t st =
     (case map_of (local_storage st t) (attr_name a) of
        Some c \<Rightarrow> (Inr c, st)
      | None \<Rightarrow>
          (let st1 = bt_log (Info_Connecting (path a)) st in
           if can_connect st1 (path a)
           then (let c = \<lparr>conn_path = path a, closed = False\<rparr>
                 in (Inr c, st1\<lparr>local_storage :=
                             (local_storage st1)(t := dict_set (attr_name a) c
                                                       (local_storage st1 t))\<rparr>))
           else (Inl (OperationalError ''unable to open database file''), st1)))"

text \<open>
  \<open>close_db_connections\<close>, called in thread \<open>t\<close>: \<open>dir(local_storage)\<close> lists the
  attributes of the calling thread. (It lists them sorted by name; the model goes through
  them in the order they were set, which changes the order of the log lines only.)
\<close>

fun close_attrs :: "(string \<times> conn) list \<Rightarrow> (string \<times> conn) list" where
  "close_attrs [] = []"
| "close_attrs (p # ps) =
     (if take 11 (fst p) = ''connection_''
      then (fst p, (snd p)\<lparr>closed := True\<rparr>) # close_attrs ps
      else p # close_attrs ps)"

definition closed_names :: "(string \<times> conn) list \<Rightarrow> string list" where
  "closed_names ps = filter (\<lambda>n. take 11 n = ''connection_'') (map fst ps)"

definition close_db_connections :: "nat \<Rightarrow> ('k, 'v) world \<Rightarrow> ('k, 'v) world" where
  "close_db_connections t st =
     st\<lparr>local_storage := (local_storage st)(t := close_attrs (local_storage st t)),
        logs := logs st @ map Info_Closed (closed_names (local_storage st t))\<rparr>"

subsection \<open>The handlers\<close>

definition retrieve ::
  "string \<Rightarrow> (int, 'v) synapse \<Rightarrow> nat \<Rightarrow> (int, 'v) world
     \<Rightarrow> (exn + (int, 'v) synapse) \<times> (int, 'v) world" where
  "retrieve w syn t st =
     (let st1 = bt_log (Info_GotRetrieve (key syn) (dendrite_hotkey syn)) st in
      case map_of (allocations st1) (dendrite_hotkey syn) of
        None \<Rightarrow> (Inl (KeyError (dendrite_hotkey syn)), st1)
      | Some a \<Rightarrow>
          (case get_db_connection a t st1 of
             (Inl e, st2) \<Rightarrow> (Inl e, st2)
           | (Inr db, st2) \<Rightarrow>
               (case cursor db of
                  Inl e \<Rightarrow> (Inl e, st2)
                | Inr cur \<Rightarrow>
                    (case execute_select cur (table_name w (dendrite_hotkey syn)) (key syn)
                            (disk st2) of
                       Inl e \<Rightarrow> (Inl e, st2)
                     | Inr data_value \<Rightarrow>
                         (case data_value of
                            Some (x # _) \<Rightarrow>
                              (Inr (syn\<lparr>data := x\<rparr>), bt_log (Success_Found (key syn)) st2)
                          | _ \<Rightarrow>
                              (Inr (syn\<lparr>data := None\<rparr>),
                               bt_log (Error_NotFound (key syn)) st2))))))"

text \<open>
  In \<open>store\<close> only the update and the commit are inside \<open>try\<close>; \<open>except Exception\<close>
  takes what \<open>is_Exception\<close> accepts and lets everything else through.
\<close>

definition store ::
  "string \<Rightarrow> (int, pystr) synapse \<Rightarrow> nat \<Rightarrow> (int, pystr) world
     \<Rightarrow> (exn + (int, pystr) synapse) \<times> (int, pystr) world" where
  "store w syn t st =
     (let st1 = bt_log (Info_GotStore (key syn) (dendrite_hotkey syn)) st in
      case map_of (allocations st1) (dendrite_hotkey syn) of
        None \<Rightarrow> (Inl (KeyError (dendrite_hotkey syn)), st1)
      | Some a \<Rightarrow>
          (case get_db_connection a t st1 of
             (Inl e, st2) \<Rightarrow> (Inl e, st2)
           | (Inr db, st2) \<Rightarrow>
               (case cursor db of
                  Inl e \<Rightarrow> (Inl e, st2)
                | Inr cur \<Rightarrow>
                    (let st3 = bt_log (Info_StoreData (data syn) (key syn)) st2 in
                     case execute_update cur (table_name w (dendrite_hotkey syn)) (data syn)
                            (key syn) (disk st3) of
                       Inr fs \<Rightarrow>
                         (Inr syn, bt_log (Success_Stored (key syn)) (st3\<lparr>disk := fs\<rparr>))
                     | Inl e \<Rightarrow>
                         (if is_Exception e
                          then (Inr syn, bt_log (Success_Stored (key syn))
                                           (bt_log (Error_Updating e) st3))
                          else (Inl e, st3))))))"

subsection \<open>Start-up and the main loop\<close>

text \<open>
  The two settings of the configuration that the loop reads.
\<close>

record config =
  steps_per_reallocate :: int
  restart :: bool

text \<open>
  \<open>allocate.generate\<close> is a collaborator outside the miner: it is a parameter \<open>G\<close>, from
  the allocations, the \<open>restart\<close> flag and the files to the exception it raised, if any,
  and the files it left. What the other library calls of one pass through the loop do is
  the environment of that pass: the exception raised by the telemetry block, by the
  metagraph sync of a reallocation, by \<open>allocate.allocate\<close> (or the list it returned),
  and by \<open>time.sleep(1)\<close>, where an interrupt from the keyboard arrives.
\<close>

type_synonym ('k, 'v) generate =
  "alloc list \<Rightarrow> bool \<Rightarrow> ('k, 'v) files \<Rightarrow> exn option \<times> ('k, 'v) files"

record tick_env =
  telemetry :: "exn option"
  resync :: "exn option"
  allocate_result :: "exn + alloc list"
  sleep :: "exn option"

text \<open>
  From \<open># Create DBs\<close> to \<open>axon.start()\<close>: an exception here leaves \<open>main\<close>.
\<close>

definition startup ::
  "config \<Rightarrow> ('k, 'v) generate \<Rightarrow> exn + alloc list \<Rightarrow> ('k, 'v) world \<Rightarrow> exn + ('k, 'v) world" where
  "startup cfg G ar st =
     (case ar of
        Inl e \<Rightarrow> Inl e
      | Inr as \<Rightarrow>
          (let st1 = bt_log (Info_Creating (length (dict_comp as)))
                       (st\<lparr>allocations := dict_comp as\<rparr>);
               args = dict_values (allocations st1);
               st2 = st1\<lparr>generate_calls := generate_calls st1 @ [(args, restart cfg)]\<rparr>
           in case G args (restart cfg) (disk st2) of
                (Some e, fs) \<Rightarrow> Inl e
              | (None, fs) \<Rightarrow>
                  Inr (st2\<lparr>disk := fs, local_storage := (\<lambda>t. []), step := 0,
                           axon_serving := True\<rparr>)))"

text \<open>The body of \<open>if step % config.steps_per_reallocate == 0\<close>.\<close>

definition reallocate ::
  "('k, 'v) generate \<Rightarrow> tick_env \<Rightarrow> ('k, 'v) world \<Rightarrow> exn option \<times> ('k, 'v) world" where
  "reallocate G env st =
     (case resync env of
        Some e \<Rightarrow> (Some e, st)
      | None \<Rightarrow>
          (case allocate_result env of
             Inl e \<Rightarrow> (Some e, st)
           | Inr as \<Rightarrow>
               (let st1 = bt_log (Info_Reallocating (length (dict_comp as)))
                            (st\<lparr>allocations := dict_comp as\<rparr>);
                    args = dict_values (allocations st1);
                    st2 = st1\<lparr>generate_calls := generate_calls st1 @ [(args, False)]\<rparr>
                in case G args False (disk st2) of
                     (Some e, fs) \<Rightarrow> (Some e, st2\<lparr>disk := fs\<rparr>)
                   | (None, fs) \<Rightarrow> (None, st2\<lparr>disk := fs\<rparr>))))"

text \<open>
  The \<open>try\<close> block of one pass: the exception it raised, if any, and the state it left.
  \<open>step % config.steps_per_reallocate\<close> raises for a zero setting; otherwise Python's
  \<open>%\<close> on integers is \<open>mod\<close>.
\<close>

definition tick ::
  "config \<Rightarrow> ('k, 'v) generate \<Rightarrow> tick_env \<Rightarrow> ('k, 'v) world \<Rightarrow> exn option \<times> ('k, 'v) world" where
  "tick cfg G env st =
     (case (if step st mod 5 = 0
            then (case telemetry env of
                    Some e \<Rightarrow> (Some e, st)
                  | None \<Rightarrow> (None, bt_log (Info_Telemetry (step st)) st))
            else (None, st)) of
        (Some e, st1) \<Rightarrow> (Some e, st1)
      | (None, st1) \<Rightarrow>
          (if steps_per_reallocate cfg = 0 then (Some ZeroDivisionError, st1)
           else
             (case (if step st1 mod steps_per_reallocate cfg = 0 then reallocate G env st1
                    else (None, st1)) of
                (Some e, st2) \<Rightarrow> (Some e, st2)
              | (None, st2) \<Rightarrow> (sleep env, st2\<lparr>step := step st2 + 1\<rparr>))))"

text \<open>
  \<open>while True\<close>, run over the environments of its first passes by the thread \<open>mt\<close> that
  called \<open>main\<close>. \<open>Running\<close>: the loop is still going after them. \<open>Stopped\<close>: it took the
  \<open>break\<close> of \<open>except KeyboardInterrupt\<close>. \<open>Crashed e\<close>: neither handler caught \<open>e\<close>, which
  leaves the loop and \<open>main\<close>. In the handler of the interrupt, \<open>axon.stop()\<close> clears
  \<open>axon_serving\<close>; it and \<open>connection.close()\<close> are taken not to raise.
\<close>

datatype outcome = Running | Stopped | Crashed exn

fun main_loop ::
  "config \<Rightarrow> ('k, 'v) generate \<Rightarrow> nat \<Rightarrow> tick_env list \<Rightarrow> ('k, 'v) world
     \<Rightarrow> outcome \<times> ('k, 'v) world" where
  "main_loop cfg G mt [] st = (Running, st)"
| "main_loop cfg G mt (env # envs) st =
     (case tick cfg G env st of
        (None, st1) \<Rightarrow> main_loop cfg G mt envs st1
      | (Some e, st1) \<Rightarrow>
          (if is_KeyboardInterrupt e
           then (Stopped,
                 bt_log Success_Killed (close_db_connections mt (st1\<lparr>axon_serving := False\<rparr>)))
           else if is_Exception e
           then main_loop cfg G mt envs (bt_log (Error_Traceback e) st1)
           else (Crashed e, st1)))"

definition main ::
  "config \<Rightarrow> ('k, 'v) generate \<Rightarrow> nat \<Rightarrow> exn + alloc list \<Rightarrow> tick_env list \<Rightarrow> ('k, 'v) world
     \<Rightarrow> exn + outcome \<times> ('k, 'v) world" where
  "main cfg G mt ar envs st =
     (case startup cfg G ar st of
        Inl e \<Rightarrow> Inl e
      | Inr st1 \<Rightarrow> Inr (main_loop cfg G mt envs st1))"

subsection \<open>Provisioning\<close>

text \<open>
  Modelled from the spec: \<open>allocate.generate\<close> is not among the sources. The spec says
  that it "ensures a table exists sized to capacityBytes, pre-populated with
  placeholder rows up to that capacity", with row schema \<open>{id, data}\<close>; it does not say
  what the \<open>data\<close> column of a placeholder row holds, so that is the parameter \<open>ph\<close>.
\<close>

definition provision :: "'k list \<Rightarrow> 'v option \<Rightarrow> ('k, 'v) table" where
  "provision ks ph = map (\<lambda>k. (k, ph)) ks"

subsection \<open>Notions that the properties are stated with\<close>

text \<open>
  \<open>handle st t a\<close> is the connection that \<open>get_db_connection\<close> hands to thread \<open>t\<close> for
  the allocation \<open>a\<close>: the attribute of the thread if it has one, otherwise a new
  connection on \<open>a["path"]\<close> if that can be opened, and none if it cannot.
\<close>

definition handle :: "('k, 'v) world \<Rightarrow> nat \<Rightarrow> alloc \<Rightarrow> conn option" where
  "handle st t a =
     (case map_of (local_storage st t) (attr_name a) of
        Some c \<Rightarrow> Some c
      | None \<Rightarrow> if can_connect st (path a) then Some \<lparr>conn_path = path a, closed = False\<rparr>
                else None)"

text \<open>
  \<open>target w st t p\<close> is the file and the table that the statement of a request from \<open>p\<close>
  works on when thread \<open>t\<close> serves it, if the request gets as far as a connection.
\<close>

definition target :: "string \<Rightarrow> ('k, 'v) world \<Rightarrow> nat \<Rightarrow> string \<Rightarrow> (string \<times> string) option" where
  "target w st t p =
     (case map_of (allocations st) p of
        None \<Rightarrow> None
      | Some a \<Rightarrow>
          (case handle st t a of
             None \<Rightarrow> None
           | Some c \<Rightarrow> Some (conn_path c, fold_name (table_name w p))))"

text \<open>
  \<open>serves w st t p f\<close>: the peer \<open>p\<close> is in the allocations, the handle of thread
  \<open>t\<close> for it is open and on the file \<open>f\<close>, the name of the table of \<open>p\<close> is plain and
  \<open>f\<close> has that table. \<open>provisioned w st t p k f\<close>: moreover that table has a row with
  id \<open>k\<close>.
\<close>

definition serves :: "string \<Rightarrow> ('k, 'v) world \<Rightarrow> nat \<Rightarrow> string \<Rightarrow> string \<Rightarrow> bool" where
  "serves w st t p f =
     (case map_of (allocations st) p of
        None \<Rightarrow> False
      | Some a \<Rightarrow>
          handle st t a = Some \<lparr>conn_path = f, closed = False\<rparr>
          \<and> plain (table_name w p)
          \<and> disk st f (fold_name (table_name w p)) \<noteq> None)"

definition provisioned ::
  "string \<Rightarrow> ('k, 'v) world \<Rightarrow> nat \<Rightarrow> string \<Rightarrow> 'k \<Rightarrow> string \<Rightarrow> bool" where
  "provisioned w st t p k f =
     (serves w st t p f
      \<and> (case disk st f (fold_name (table_name w p)) of
            None \<Rightarrow> False
          | Some rows \<Rightarrow> k \<in> fst ` set rows))"

text \<open>
  The requests that the axon hands to the handlers, each with the thread that serves
  it, and the state after serving a list of them in order. \<open>writes_to r p k\<close>: the
  request is a Store from peer \<open>p\<close> on key \<open>k\<close>.
\<close>

datatype ('k, 'v) request =
    Retrieve "('k, 'v) synapse" nat
  | Store "('k, 'v) synapse" nat

fun serve ::
  "string \<Rightarrow> (int, pystr) request \<Rightarrow> (int, pystr) world \<Rightarrow> (int, pystr) world" where
  "serve w (Retrieve syn t) st = snd (retrieve w syn t st)"
| "serve w (Store syn t) st = snd (store w syn t st)"

fun serve_all ::
  "string \<Rightarrow> (int, pystr) request list \<Rightarrow> (int, pystr) world \<Rightarrow> (int, pystr) world" where
  "serve_all w [] st = st"
| "serve_all w (r # rs) st = serve_all w rs (serve w r st)"

fun writes_to :: "('k, 'v) request \<Rightarrow> string \<Rightarrow> 'k \<Rightarrow> bool" where
  "writes_to (Retrieve syn t) p k = False"
| "writes_to (Store syn t) p k = (dendrite_hotkey syn = p \<and> key syn = k)"

text \<open>
  \<open>holds w st t p k v f\<close>: thread \<open>t\<close> reaches the table of \<open>p\<close> in the file \<open>f\<close>, and the
  first row with id \<open>k\<close> there has the data \<open>v\<close>.
\<close>

definition holds ::
  "string \<Rightarrow> ('k, 'v) world \<Rightarrow> nat \<Rightarrow> string \<Rightarrow> 'k \<Rightarrow> 'v option \<Rightarrow> string \<Rightarrow> bool" where
  "holds w st t p k v f =
     (serves w st t p f
      \<and> (case disk st f (fold_name (table_name w p)) of
            None \<Rightarrow> False
          | Some rows \<Rightarrow> find (\<lambda>r. fst r = k) rows = Some (k, v)))"

text \<open>The log lines written between two states.\<close>

definition new_logs :: "('k, 'v) world \<Rightarrow> ('k, 'v) world \<Rightarrow> ('k, 'v) event list" where
  "new_logs st st' = drop (length (logs st)) (logs st')"

text \<open>The connections of a thread that are still open.\<close>

definition open_handles :: "('k, 'v) world \<Rightarrow> nat \<Rightarrow> (string \<times> conn) list" where
  "open_handles st t = filter (\<lambda>p. \<not> closed (snd p)) (local_storage st t)"

text \<open>
  What \<open>retrieve\<close> makes of the value of \<open>cursor.fetchone()\<close>: \<open>if data_value\<close> holds for
  a tuple that is not empty, and then \<open>data_value[0]\<close> is returned.
\<close>

definition selected :: "('k, 'v) synapse \<Rightarrow> 'v option list option \<Rightarrow> ('k, 'v) synapse" where
  "selected syn dv = (case dv of Some (x # _) \<Rightarrow> syn\<lparr>data := x\<rparr> | _ \<Rightarrow> syn\<lparr>data := None\<rparr>)"

subsection \<open>A concrete miner\<close>

text \<open>
  The miner with hotkey \<open>m\<close> and the two validators \<open>A\<close> and \<open>B\<close>, each with a file and
  a table of two provisioned rows whose placeholder is \<open>ph\<close>; every path can be opened
  and no thread has connected yet. The collaborator \<open>idle_generate\<close> leaves the files
  alone; in the environment \<open>quiet\<close> nothing raises and \<open>allocate.allocate\<close> returns the
  same two allocations. The texts \<open>v1\<close>, \<open>v2\<close>, \<open>w1\<close>, \<open>w2\<close> and \<open>old\<close> are written
  as their code points.
\<close>

definition scenario :: "pystr option \<Rightarrow> (int, pystr) world" where
  "scenario ph =
     \<lparr>allocations = dict_comp [\<lparr>validator = ''A'', path = ''a.db''\<rparr>,
                              \<lparr>validator = ''B'', path = ''b.db''\<rparr>],
      local_storage = (\<lambda>t. []),
      can_connect = (\<lambda>f. True),
      disk = (\<lambda>f. if f = ''a.db'' then [''dbma'' \<mapsto> provision [1, 2] ph]
                   else if f = ''b.db'' then [''dbmb'' \<mapsto> provision [1, 2] ph]
                   else Map.empty),
      logs = [], generate_calls = [], step = 0, axon_serving = True\<rparr>"

definition idle_generate :: "(int, pystr) generate" where
  "idle_generate as r fs = (None, fs)"

definition quiet :: tick_env where
  "quiet = \<lparr>telemetry = None, resync = None,
            allocate_result = Inr [\<lparr>validator = ''A'', path = ''a.db''\<rparr>,
                                   \<lparr>validator = ''B'', path = ''b.db''\<rparr>],
            sleep = None\<rparr>"

text \<open>
  Three variations. In \<open>scenario_moved\<close> a second file, \<open>a2.db\<close>, holds a table of \<open>A\<close>
  as well, and in the environment \<open>relocating\<close> the allocation of \<open>A\<close> comes back with
  that path. In the environment \<open>newcomer\<close> a third validator \<open>C\<close> is allocated, and the
  collaborator \<open>failing_generate\<close> raises before it has provisioned anything.
\<close>

definition scenario_moved :: "(int, pystr) world" where
  "scenario_moved =
     (scenario None)\<lparr>disk := (disk (scenario None))
                               (''a2.db'' := [''dbma'' \<mapsto> provision [1, 2] None])\<rparr>"

definition relocating :: tick_env where
  "relocating = quiet\<lparr>allocate_result := Inr [\<lparr>validator = ''A'', path = ''a2.db''\<rparr>,
                                              \<lparr>validator = ''B'', path = ''b.db''\<rparr>]\<rparr>"

definition newcomer :: tick_env where
  "newcomer = quiet\<lparr>allocate_result := Inr [\<lparr>validator = ''A'', path = ''a.db''\<rparr>,
                                            \<lparr>validator = ''B'', path = ''b.db''\<rparr>,
                                            \<lparr>validator = ''C'', path = ''c.db''\<rparr>]\<rparr>"

definition failing_generate :: "(int, pystr) generate" where
  "failing_generate as r fs = (Some (OtherException ''generate''), fs)"


definition example_config :: config where
  "example_config = \<lparr>steps_per_reallocate = 2, restart = True\<rparr>"

section \<open>Properties\<close>

subsection \<open>Auxiliary facts about the state\<close>

lemma map_of_dict_set: "map_of (dict_set k v d) k' = (if k' = k then Some v else map_of d k')"
  by (induction d) auto

lemma bt_log_fields [simp]:
  "disk (bt_log e st) = disk st"
  "allocations (bt_log e st) = allocations st"
  "local_storage (bt_log e st) = local_storage st"
  "can_connect (bt_log e st) = can_connect st"
  "generate_calls (bt_log e st) = generate_calls st"
  "logs (bt_log e st) = logs st @ [e]"
  by (simp_all add: bt_log_def)

lemma handle_bt_log [simp]: "handle (bt_log e st) t a = handle st t a"
  by (simp add: handle_def)

lemma get_db_connection_frame:
  "disk (snd (get_db_connection a t st)) = disk st"
  "allocations (snd (get_db_connection a t st)) = allocations st"
  "generate_calls (snd (get_db_connection a t st)) = generate_calls st"
  "can_connect (snd (get_db_connection a t st)) = can_connect st"
  by (simp_all add: get_db_connection_def Let_def split: option.splits)

lemma fst_get_db_connection:
  "fst (get_db_connection a t st) =
     (case handle st t a of
        None \<Rightarrow> Inl (OperationalError ''unable to open database file'')
      | Some c \<Rightarrow> Inr c)"
  by (simp add: get_db_connection_def handle_def Let_def split: option.splits)

lemma get_db_connection_attrs:
  "map_of (local_storage (snd (get_db_connection a t st)) t') n =
     (if t' = t \<and> n = attr_name a then handle st t a else map_of (local_storage st t') n)"
  by (auto simp: get_db_connection_def handle_def Let_def map_of_dict_set split: option.splits)

subsection \<open>What a request returns\<close>

lemma retrieve_fst:
  assumes "map_of (allocations st) (dendrite_hotkey syn) = Some a"
  shows "fst (retrieve w syn t st) =
     (case handle st t a of
        None \<Rightarrow> Inl (OperationalError ''unable to open database file'')
      | Some db \<Rightarrow>
          (case cursor db of
             Inl e \<Rightarrow> Inl e
           | Inr cur \<Rightarrow>
               (case execute_select cur (table_name w (dendrite_hotkey syn)) (key syn)
                       (disk st) of
                  Inl e \<Rightarrow> Inl e
                | Inr dv \<Rightarrow> Inr (selected syn dv))))"
proof -
  let ?st1 = "bt_log (Info_GotRetrieve (key syn) (dendrite_hotkey syn)) st"
  obtain r st2 where g: "get_db_connection a t ?st1 = (r, st2)"
    by (cases "get_db_connection a t ?st1")
  have r: "r = (case handle st t a of
        None \<Rightarrow> Inl (OperationalError ''unable to open database file'')
      | Some c \<Rightarrow> Inr c)"
    using fst_get_db_connection[of a t ?st1] g by simp
  have d: "disk st2 = disk st"
    using get_db_connection_frame(1)[of a t ?st1] g by simp
  show ?thesis
    using assms g r d
    by (simp add: retrieve_def selected_def Let_def split: sum.splits option.splits list.splits)
qed

lemma retrieve_fst_unallocated:
  "map_of (allocations st) (dendrite_hotkey syn) = None
     \<Longrightarrow> fst (retrieve w syn t st) = Inl (KeyError (dendrite_hotkey syn))"
  by (simp add: retrieve_def)

lemma retrieve_disk: "disk (snd (retrieve w syn t st)) = disk st"
proof (cases "map_of (allocations st) (dendrite_hotkey syn)")
  case None
  then show ?thesis by (simp add: retrieve_def)
next
  case (Some a)
  let ?st1 = "bt_log (Info_GotRetrieve (key syn) (dendrite_hotkey syn)) st"
  obtain r st2 where g: "get_db_connection a t ?st1 = (r, st2)"
    by (cases "get_db_connection a t ?st1")
  have d: "disk st2 = disk st"
    using get_db_connection_frame(1)[of a t ?st1] g by simp
  show ?thesis
    using Some g d
    by (simp add: retrieve_def Let_def split: sum.splits option.splits list.splits)
qed

lemma retrieve_allocations: "allocations (snd (retrieve w syn t st)) = allocations st"
proof (cases "map_of (allocations st) (dendrite_hotkey syn)")
  case None
  then show ?thesis by (simp add: retrieve_def)
next
  case (Some a)
  let ?st1 = "bt_log (Info_GotRetrieve (key syn) (dendrite_hotkey syn)) st"
  obtain r st2 where g: "get_db_connection a t ?st1 = (r, st2)"
    by (cases "get_db_connection a t ?st1")
  have d: "allocations st2 = allocations st"
    using get_db_connection_frame(2)[of a t ?st1] g by simp
  show ?thesis
    using Some g d
    by (simp add: retrieve_def Let_def split: sum.splits option.splits list.splits)
qed

lemma retrieve_can_connect: "can_connect (snd (retrieve w syn t st)) = can_connect st"
proof (cases "map_of (allocations st) (dendrite_hotkey syn)")
  case None
  then show ?thesis by (simp add: retrieve_def)
next
  case (Some a)
  let ?st1 = "bt_log (Info_GotRetrieve (key syn) (dendrite_hotkey syn)) st"
  obtain r st2 where g: "get_db_connection a t ?st1 = (r, st2)"
    by (cases "get_db_connection a t ?st1")
  have d: "can_connect st2 = can_connect st"
    using get_db_connection_frame(4)[of a t ?st1] g by simp
  show ?thesis
    using Some g d
    by (simp add: retrieve_def Let_def split: sum.splits option.splits list.splits)
qed

lemma retrieve_local_storage:
  "local_storage (snd (retrieve w syn t st)) =
     (case map_of (allocations st) (dendrite_hotkey syn) of
        None \<Rightarrow> local_storage st
      | Some a \<Rightarrow> local_storage (snd (get_db_connection a t
                     (bt_log (Info_GotRetrieve (key syn) (dendrite_hotkey syn)) st))))"
proof (cases "map_of (allocations st) (dendrite_hotkey syn)")
  case None
  then show ?thesis by (simp add: retrieve_def)
next
  case (Some a)
  let ?st1 = "bt_log (Info_GotRetrieve (key syn) (dendrite_hotkey syn)) st"
  obtain r st2 where g: "get_db_connection a t ?st1 = (r, st2)"
    by (cases "get_db_connection a t ?st1")
  show ?thesis
    using Some g
    by (simp add: retrieve_def Let_def split: sum.splits option.splits list.splits)
qed

subsection \<open>Retrieve writes nothing\<close>

text \<open>
  C10. A Retrieve request, served by any thread in any state, leaves every table of
  every database file as it was, whether it returns data, returns none or raises: the
  handler only runs the SELECT.
\<close>

theorem retrieve_leaves_storage_unchanged:
  "disk (snd (retrieve w syn t st)) = disk st"
  by (rule retrieve_disk)

subsection \<open>Facts about the concrete miner\<close>

lemma scenario_allocations:
  "allocations (scenario ph) = [(''A'', \<lparr>validator = ''A'', path = ''a.db''\<rparr>),
                                (''B'', \<lparr>validator = ''B'', path = ''b.db''\<rparr>)]"
  by (simp add: scenario_def dict_comp_def)

lemma scenario_fields:
  "local_storage (scenario ph) = (\<lambda>t. [])"
  "logs (scenario ph) = []"
  "can_connect (scenario ph) = (\<lambda>f. True)"
  "disk (scenario ph) ''a.db'' = [''dbma'' \<mapsto> provision [1, 2] ph]"
  "disk (scenario ph) ''b.db'' = [''dbmb'' \<mapsto> provision [1, 2] ph]"
  by (simp_all add: scenario_def)

lemma folded_names:
  "fold_name (table_name ''m'' ''A'') = ''dbma''"
  "fold_name (table_name ''m'' ''B'') = ''dbmb''"
  "fold_name (table_name ''m'' ''a'') = ''dbma''"
  "fold_name (table_name ''m'' ''C'') = ''dbmc''"
  "fold_name (table_name ''zz'' ''A'') = ''dbzza''"
  by (simp_all add: fold_name_def lower_def table_name_def)

lemma plain_names:
  "plain (table_name ''m'' ''A'')"
  "plain (table_name ''m'' ''B'')"
  "plain (table_name ''m'' ''a'')"
  "plain (table_name ''zz'' ''A'')"
  by (simp_all add: plain_def table_name_def)

lemma scenario_handle:
  "handle (scenario ph) t a = Some \<lparr>conn_path = path a, closed = False\<rparr>"
  by (simp add: handle_def scenario_fields)

lemma scenario_serves:
  "serves ''m'' (scenario ph) t ''A'' ''a.db''"
  "serves ''m'' (scenario ph) t ''B'' ''b.db''"
  by (simp_all add: serves_def scenario_allocations scenario_handle scenario_fields
                    folded_names plain_names)

lemma scenario_provisioned:
  "provisioned ''m'' (scenario ph) t ''A'' 1 ''a.db''"
  by (simp add: provisioned_def scenario_serves scenario_fields folded_names provision_def)

subsection \<open>A peer without an allocation\<close>

text \<open>
  C1, as amended. A Store or a Retrieve request whose sender is not a key of the
  allocations does not return at all: the lookup \<open>allocations[synapse.dendrite.hotkey]\<close>
  raises \<open>KeyError\<close> out of the handler. The state it leaves is the one it found plus
  the log line of the request, so no table is changed, nothing is committed and no
  connection is opened.
\<close>

theorem unallocated_peer_raises_KeyError:
  assumes "map_of (allocations st) (dendrite_hotkey syn) = None"
  shows "retrieve w syn t st
           = (Inl (KeyError (dendrite_hotkey syn)),
              bt_log (Info_GotRetrieve (key syn) (dendrite_hotkey syn)) st)
       \<and> store w syn t st
           = (Inl (KeyError (dendrite_hotkey syn)),
              bt_log (Info_GotStore (key syn) (dendrite_hotkey syn)) st)"
  using assms by (simp add: retrieve_def store_def)

theorem unallocated_peer_raises_KeyError_witness:
  "map_of (allocations (scenario None)) ''C'' = None
   \<and> retrieve ''m'' \<lparr>key = 1, data = None, dendrite_hotkey = ''C''\<rparr> 1 (scenario None)
       = (Inl (KeyError ''C''), bt_log (Info_GotRetrieve 1 ''C'') (scenario None))
   \<and> store ''m'' \<lparr>key = 1, data = Some [118, 49], dendrite_hotkey = ''C''\<rparr> 1 (scenario None)
       = (Inl (KeyError ''C''), bt_log (Info_GotStore 1 ''C'') (scenario None))"
  using unallocated_peer_raises_KeyError
          [of "scenario None" "\<lparr>key = 1, data = None, dendrite_hotkey = ''C''\<rparr>" "''m''" 1]
        unallocated_peer_raises_KeyError
          [of "scenario None" "\<lparr>key = 1, data = Some [118, 49], dendrite_hotkey = ''C''\<rparr>" "''m''" 1]
  by (simp add: scenario_allocations)

text \<open>
  The claim as stated fails: for the peer \<open>C\<close>, which the concrete miner has not
  allocated, Retrieve raises instead of returning the request with no data.
\<close>

theorem retrieve_unallocated_counterexample:
  "fst (retrieve ''m'' \<lparr>key = 1, data = None, dendrite_hotkey = ''C''\<rparr> 1 (scenario None))
     = Inl (KeyError ''C'')
   \<and> fst (retrieve ''m'' \<lparr>key = 1, data = None, dendrite_hotkey = ''C''\<rparr> 1 (scenario None))
     \<noteq> Inr \<lparr>key = 1, data = None, dendrite_hotkey = ''C''\<rparr>"
  by (simp add: retrieve_def scenario_allocations)

subsection \<open>Facts about the loop\<close>

lemma close_db_connections_fields [simp]:
  "generate_calls (close_db_connections t st) = generate_calls st"
  "disk (close_db_connections t st) = disk st"
  "allocations (close_db_connections t st) = allocations st"
  by (simp_all add: close_db_connections_def)

lemma reallocate_calls:
  "\<exists>later. generate_calls (snd (reallocate G env st)) = generate_calls st @ later
           \<and> list_all (\<lambda>c. snd c = False) later"
proof (cases "resync env")
  case (Some e)
  then show ?thesis by (simp add: reallocate_def)
next
  case None
  show ?thesis
  proof (cases "allocate_result env")
    case (Inl e)
    then show ?thesis using None by (simp add: reallocate_def)
  next
    case (Inr as)
    have "generate_calls (snd (reallocate G env st))
            = generate_calls st @ [(dict_values (dict_comp as), False)]"
      using None Inr
      by (simp add: reallocate_def Let_def split: prod.splits option.splits)
    then show ?thesis by simp
  qed
qed

lemma tick_calls:
  "\<exists>later. generate_calls (snd (tick cfg G env st)) = generate_calls st @ later
           \<and> list_all (\<lambda>c. snd c = False) later"
proof -
  obtain later where
    "generate_calls (snd (reallocate G env (bt_log (Info_Telemetry (step st)) st)))
       = generate_calls st @ later" "list_all (\<lambda>c. snd c = False) later"
    using reallocate_calls[of G env "bt_log (Info_Telemetry (step st)) st"] by auto
  moreover obtain later' where
    "generate_calls (snd (reallocate G env st)) = generate_calls st @ later'"
    "list_all (\<lambda>c. snd c = False) later'"
    using reallocate_calls[of G env st] by auto
  ultimately show ?thesis
    by (auto simp: tick_def split: option.splits prod.splits if_splits)
qed

lemma main_loop_calls:
  "\<exists>later. generate_calls (snd (main_loop cfg G mt envs st)) = generate_calls st @ later
           \<and> list_all (\<lambda>c. snd c = False) later"
proof (induction envs arbitrary: st)
  case Nil
  then show ?case by simp
next
  case (Cons env envs)
  obtain r st1 where t: "tick cfg G env st = (r, st1)"
    by (cases "tick cfg G env st")
  obtain l1 where l1: "generate_calls st1 = generate_calls st @ l1"
    "list_all (\<lambda>c. snd c = False) l1"
    using tick_calls[of cfg G env st] t by auto
  show ?case
  proof (cases r)
    case None
    obtain l2 where "generate_calls (snd (main_loop cfg G mt envs st1)) = generate_calls st1 @ l2"
      "list_all (\<lambda>c. snd c = False) l2"
      using Cons.IH[of st1] by auto
    then have "generate_calls (snd (main_loop cfg G mt (env # envs) st))
                 = generate_calls st @ (l1 @ l2) \<and> list_all (\<lambda>c. snd c = False) (l1 @ l2)"
      using t None l1 by simp
    then show ?thesis by blast
  next
    case (Some e)
    show ?thesis
    proof (cases "is_KeyboardInterrupt e")
      case True
      then show ?thesis using t Some l1 by auto
    next
      case False
      show ?thesis
      proof (cases "is_Exception e")
        case True
        obtain l2 where
          "generate_calls (snd (main_loop cfg G mt envs (bt_log (Error_Traceback e) st1)))
             = generate_calls (bt_log (Error_Traceback e) st1) @ l2"
          "list_all (\<lambda>c. snd c = False) l2"
          using Cons.IH[of "bt_log (Error_Traceback e) st1"] by auto
        then have "generate_calls (snd (main_loop cfg G mt (env # envs) st))
                 = generate_calls st @ (l1 @ l2) \<and> list_all (\<lambda>c. snd c = False) (l1 @ l2)"
          using t Some False True l1 by simp
        then show ?thesis by blast
      next
        case F2: False
        then show ?thesis using t Some False l1 by auto
      qed
    qed
  qed
qed

lemma startup_calls:
  assumes "startup cfg G ar st = Inr st1"
  shows "\<exists>args. generate_calls st1 = generate_calls st @ [(args, restart cfg)]"
  using assms
  by (auto simp: startup_def Let_def split: sum.splits prod.splits option.splits)








subsection \<open>Evaluating the loop on the concrete miner\<close>

lemmas loop_eval =
  tick_def reallocate_def example_config_def quiet_def idle_generate_def scenario_def
  dict_comp_def dict_values_def Let_def bt_log_def close_db_connections_def closed_names_def

lemma close_db_connections_other_thread:
  "t' \<noteq> t \<Longrightarrow> local_storage (close_db_connections t st) t' = local_storage st t'"
  by (simp add: close_db_connections_def)

lemma close_attrs_open:
  "list_all (\<lambda>p. take 11 (fst p) = ''connection_'') ps
     \<Longrightarrow> filter (\<lambda>p. \<not> closed (snd p)) (close_attrs ps) = []"
  by (induction ps) auto

lemma close_db_connections_own_thread:
  "list_all (\<lambda>p. take 11 (fst p) = ''connection_'') (local_storage st t)
     \<Longrightarrow> open_handles (close_db_connections t st) t = []"
  by (simp add: open_handles_def close_db_connections_def close_attrs_open)

lemma tick_local_storage: "local_storage (snd (tick cfg G env st)) = local_storage st"
  by (auto simp: tick_def reallocate_def Let_def split: option.splits sum.splits prod.splits)

lemma shutdown_closes_only_own_thread:
  assumes "tick cfg G env st = (Some KeyboardInterrupt, st1)" and "t \<noteq> mt"
  shows "local_storage (snd (main_loop cfg G mt (env # envs) st)) t = local_storage st t"
proof -
  have "local_storage st1 = local_storage st"
    using tick_local_storage[of cfg G env st] assms(1) by simp
  then show ?thesis
    using assms by (simp add: close_db_connections_def)
qed

subsection \<open>Exceptions in the loop\<close>




subsection \<open>The restart flag\<close>

text \<open>
  C8. Whenever \<open>main\<close> gets through start-up, the calls of \<open>allocate.generate\<close> it has made
  are one call with \<open>restart = config.restart\<close>, at start-up, followed by the calls of
  the loop, every one of them with \<open>restart = False\<close>, whatever the passes raised.
\<close>

theorem restart_only_at_startup:
  assumes "main cfg G mt ar envs st = Inr (out, st')"
  shows "\<exists>args later. generate_calls st' = generate_calls st @ (args, restart cfg) # later
                     \<and> list_all (\<lambda>c. snd c = False) later"
proof -
  obtain st1 where s: "startup cfg G ar st = Inr st1"
    and m: "main_loop cfg G mt envs st1 = (out, st')"
    using assms by (auto simp: main_def split: sum.splits)
  obtain args where a: "generate_calls st1 = generate_calls st @ [(args, restart cfg)]"
    using startup_calls[OF s] by auto
  obtain later where "generate_calls st' = generate_calls st1 @ later"
    "list_all (\<lambda>c. snd c = False) later"
    using main_loop_calls[of cfg G mt envs st1] m by auto
  then show ?thesis using a by simp
qed

theorem restart_only_at_startup_witness:
  "(case main example_config idle_generate 0
           (Inr [\<lparr>validator = ''A'', path = ''a.db''\<rparr>]) [quiet, quiet, quiet] (scenario None) of
      Inl e \<Rightarrow> []
    | Inr r \<Rightarrow> map snd (generate_calls (snd r)))
   = [True, False, False]"
proof -
  obtain r where m: "main example_config idle_generate 0
           (Inr [\<lparr>validator = ''A'', path = ''a.db''\<rparr>]) [quiet, quiet, quiet] (scenario None)
         = Inr r"
    by (simp add: main_def startup_def loop_eval)
  have "\<exists>args later. generate_calls (snd r)
            = generate_calls (scenario None) @ (args, restart example_config) # later
          \<and> list_all (\<lambda>c. snd c = False) later"
    using restart_only_at_startup[of example_config idle_generate 0 _ _ "scenario None" "fst r" "snd r"] m
    by simp
  then obtain args later where gc: "generate_calls (snd r) = (args, True) # later"
    and f: "list_all (\<lambda>c. snd c = False) later"
    by (auto simp: example_config_def scenario_def)
  have "length (generate_calls (snd r)) = 3"
    using m by (auto simp: main_def startup_def loop_eval)
  then have "length later = 2"
    using gc by simp
  then obtain c1 c2 where "later = [c1, c2]"
    by (auto simp: length_Suc_conv numeral_2_eq_2)
  then show ?thesis
    using m gc f by simp
qed

subsection \<open>Shutdown\<close>

text \<open>
  C9. The claim does not hold of the code. A worker thread (thread 1) has served one
  Retrieve and so holds the open connection \<open>connection_A\<close>; then the interrupt from the
  keyboard reaches the loop, which runs in the thread of \<open>main\<close> (thread 0). The loop
  stops, and the connection of the worker is still open: \<open>close_db_connections\<close> goes
  through \<open>dir(local_storage)\<close>, which lists the attributes of the calling thread only.
\<close>

theorem shutdown_leaves_worker_handle_open:
  "fst (main_loop example_config idle_generate 0 [quiet\<lparr>sleep := Some KeyboardInterrupt\<rparr>]
          (snd (retrieve ''m'' \<lparr>key = 1, data = None, dendrite_hotkey = ''A''\<rparr> 1
                  (scenario None))))
     = Stopped
   \<and> open_handles
        (snd (main_loop example_config idle_generate 0 [quiet\<lparr>sleep := Some KeyboardInterrupt\<rparr>]
          (snd (retrieve ''m'' \<lparr>key = 1, data = None, dendrite_hotkey = ''A''\<rparr> 1
                  (scenario None))))) 1
     = [(''connection_A'', \<lparr>conn_path = ''a.db'', closed = False\<rparr>)]"
  by (simp add: loop_eval retrieve_def get_db_connection_def attr_name_def cursor_def
                execute_select_def table_name_def fold_name_def lower_def bind_key_def
                provision_def select_data_def fetchone_def open_handles_def)

end
